theory Spec2Isabelle
  imports Complex_Main
begin

section \<open>JavaScript strings\<close>

text \<open>
  A JavaScript string is modelled as a \<^typ>\<open>string\<close>: a list of code units, \<open>length\<close>
  being the \<open>.length\<close> of the source. Isabelle characters have eight bits, so the
  model covers the strings whose code units lie in the Latin-1 range (U+0000 to U+00FF).
  The built-in methods below are the ECMAScript ones restricted to that range.
\<close>

text \<open>\<open>WhiteSpace\<close> and \<open>LineTerminator\<close> code points below U+0100: what
  \<open>String.prototype.trim\<close> strips and what the regular expression class \<open>\s\<close> matches.\<close>

definition isWhiteSpace :: "char \<Rightarrow> bool" where
  "isWhiteSpace c = (c \<in> set [CHR 0x09, CHR 0x0A, CHR 0x0B, CHR 0x0C, CHR 0x0D, CHR 0x20, CHR 0xA0])"

text \<open>\<open>s.trim()\<close>\<close>

definition trim :: "string \<Rightarrow> string" where
  "trim s = rev (dropWhile isWhiteSpace (rev (dropWhile isWhiteSpace s)))"

text \<open>\<open>s.replace(/\s+/g, ' ')\<close>: every maximal run of white space becomes one space.
  The flag says whether the previous code unit belonged to a run already replaced.\<close>

fun replaceRuns :: "bool \<Rightarrow> string \<Rightarrow> string" where
  "replaceRuns inRun [] = []"
| "replaceRuns inRun (c # cs) =
     (if isWhiteSpace c
      then (if inRun then replaceRuns True cs else CHR 0x20 # replaceRuns True cs)
      else c # replaceRuns False cs)"

definition collapseWhitespace :: "string \<Rightarrow> string" where
  "collapseWhitespace s = replaceRuns False s"

text \<open>\<open>s.toLowerCase()\<close> on Latin-1: the letters A-Z and the accented capitals
  U+00C0 to U+00DE (the multiplication sign U+00D7 apart) move up by 32.\<close>

definition lowerChar :: "char \<Rightarrow> char" where
  "lowerChar c =
     (let n = (of_char c :: nat) in
      if (65 \<le> n \<and> n \<le> 90) \<or> (192 \<le> n \<and> n \<le> 222 \<and> n \<noteq> 215)
      then char_of (n + 32) else c)"

definition toLowerCase :: "string \<Rightarrow> string" where
  "toLowerCase s = map lowerChar s"

text \<open>\<open>s.startsWith(k)\<close> and \<open>s.includes(k)\<close>\<close>

fun startsWith :: "string \<Rightarrow> string \<Rightarrow> bool" where
  "startsWith s [] = True"
| "startsWith [] (k # ks) = False"
| "startsWith (c # cs) (k # ks) = (c = k \<and> startsWith cs ks)"

fun includes_str :: "string \<Rightarrow> string \<Rightarrow> bool" where
  "includes_str [] k = (k = [])"
| "includes_str (c # cs) k = (startsWith (c # cs) k \<or> includes_str cs k)"

text \<open>\<open>s.substring(0, n)\<close> and \<open>s.split('.')[0]\<close>\<close>

definition substring0 :: "nat \<Rightarrow> string \<Rightarrow> string" where
  "substring0 n s = take n s"

definition splitDotFirst :: "string \<Rightarrow> string" where
  "splitDotFirst s = takeWhile (\<lambda>c. c \<noteq> CHR ''.'') s"

text \<open>\<open>xs.indexOf(x)\<close>: the first position of \<open>x\<close>, or \<open>-1\<close> when it is absent.\<close>

fun indexFrom :: "int \<Rightarrow> 'a list \<Rightarrow> 'a \<Rightarrow> int" where
  "indexFrom i [] x = - 1"
| "indexFrom i (y # ys) x = (if y = x then i else indexFrom (i + 1) ys x)"

definition indexOf :: "'a list \<Rightarrow> 'a \<Rightarrow> int" where
  "indexOf xs x = indexFrom 0 xs x"

text \<open>The canonicalisation of a case-insensitive regular expression without the
  \<open>u\<close> flag: the upper-case form of one code unit. A code unit above U+007F never
  canonicalises to an ASCII one, so against the ASCII patterns of this program only the
  letters a-z fold.\<close>

definition canonicalize :: "char \<Rightarrow> char" where
  "canonicalize c =
     (let n = (of_char c :: nat) in
      if (97 \<le> n \<and> n \<le> 122) \<or> (224 \<le> n \<and> n \<le> 254 \<and> n \<noteq> 247)
      then char_of (n - 32) else c)"

text \<open>\<open>/^(a1|a2|...)$/i.test(s)\<close> for literal alternatives.\<close>

definition testAlternativesIgnoreCase :: "string list \<Rightarrow> string \<Rightarrow> bool" where
  "testAlternativesIgnoreCase alts s =
     list_ex (\<lambda>a. map canonicalize a = map canonicalize s) alts"

text \<open>\<open>a || b\<close> on an optional string: \<open>undefined\<close> and the empty string are falsy.\<close>

definition orElse :: "string option \<Rightarrow> string \<Rightarrow> string" where
  "orElse a b = (case a of None \<Rightarrow> b | Some s \<Rightarrow> if s = [] then b else s)"

section \<open>Ticket types (\<open>types/ticket.ts\<close>)\<close>

datatype TicketStatus = OPEN | IN_PROGRESS | RESOLVED | CLOSED

datatype TicketPriority = LOW | MEDIUM | HIGH | URGENT

datatype TicketCategory =
  TECHNICAL | BILLING | ACCOUNT | FEATURE_REQUEST | BUG_REPORT | GENERAL | OTHER

text \<open>The string value of each member of the \<open>TicketCategory\<close> object, and
  \<open>Object.values(TicketCategory)\<close> in declaration order.\<close>

fun categoryValue :: "TicketCategory \<Rightarrow> string" where
  "categoryValue TECHNICAL = ''technical''"
| "categoryValue BILLING = ''billing''"
| "categoryValue ACCOUNT = ''account''"
| "categoryValue FEATURE_REQUEST = ''feature_request''"
| "categoryValue BUG_REPORT = ''bug_report''"
| "categoryValue GENERAL = ''general''"
| "categoryValue OTHER = ''other''"

definition ticketCategoryValues :: "TicketCategory list" where
  "ticketCategoryValues =
     [TECHNICAL, BILLING, ACCOUNT, FEATURE_REQUEST, BUG_REPORT, GENERAL, OTHER]"

text \<open>\<open>getCategoryDisplayName\<close> switches on the string value; the \<open>default\<close> arm
  answers \<open>'Unknown'\<close>. The conversation engine calls it on \<open>suggestedCategory\<close>, a
  plain optional string cast to the category type, so the argument is a string here.\<close>

definition getCategoryDisplayName :: "string \<Rightarrow> string" where
  "getCategoryDisplayName category =
     (if category = categoryValue TECHNICAL then ''Technical Issue''
      else if category = categoryValue BILLING then ''Billing & Payments''
      else if category = categoryValue ACCOUNT then ''Account Management''
      else if category = categoryValue FEATURE_REQUEST then ''Feature Request''
      else if category = categoryValue BUG_REPORT then ''Bug Report''
      else if category = categoryValue GENERAL then ''General Inquiry''
      else if category = categoryValue OTHER then ''Other''
      else ''Unknown'')"

text \<open>The same call on a value that may be \<open>undefined\<close>, which no \<open>case\<close> matches.\<close>

definition getCategoryDisplayNameOpt :: "string option \<Rightarrow> string" where
  "getCategoryDisplayNameOpt c =
     (case c of None \<Rightarrow> ''Unknown'' | Some k \<Rightarrow> getCategoryDisplayName k)"

section \<open>Category detection and title derivation\<close>

definition technicalKeywords :: "string list" where
  "technicalKeywords =
     [''login'', ''password'', ''error'', ''bug'', ''crash'', ''broken'', ''not working'',
      ''server'', ''loading'', ''slow'', ''performance'', ''database'', ''api'',
      ''website'', ''app'', ''system'', ''connection'', ''timeout'', ''code'']"

definition billingKeywords :: "string list" where
  "billingKeywords =
     [''payment'', ''billing'', ''charge'', ''invoice'', ''credit card'', ''subscription'',
      ''refund'', ''money'', ''cost'', ''price'', ''fee'', ''upgrade'', ''downgrade'']"

definition accountKeywords :: "string list" where
  "accountKeywords =
     [''account'', ''profile'', ''settings'', ''email'', ''username'', ''access'',
      ''permission'', ''delete'', ''update'', ''change'', ''modify'']"

definition featureKeywords :: "string list" where
  "featureKeywords =
     [''feature'', ''request'', ''suggest'', ''improvement'', ''enhancement'',
      ''add'', ''new'', ''wish'', ''would like'', ''could you'']"

definition bugKeywords :: "string list" where
  "bugKeywords =
     [''bug'', ''issue'', ''problem'', ''error'', ''glitch'', ''malfunction'',
      ''defect'', ''wrong'', ''incorrect'', ''unexpected'']"

text \<open>\<open>keywords.filter(keyword => description.includes(keyword)).length\<close>\<close>

definition countMatches :: "string list \<Rightarrow> string \<Rightarrow> nat" where
  "countMatches keywords description =
     length (filter (\<lambda>keyword. includes_str description keyword) keywords)"

text \<open>The object literal \<open>categoryScores\<close>; \<open>Object.entries\<close> lists its properties in
  the order they were written.\<close>

definition categoryScores :: "string \<Rightarrow> (TicketCategory \<times> nat) list" where
  "categoryScores description =
     [(TECHNICAL, countMatches technicalKeywords description),
      (BILLING, countMatches billingKeywords description),
      (ACCOUNT, countMatches accountKeywords description),
      (FEATURE_REQUEST, countMatches featureKeywords description),
      (BUG_REPORT, countMatches bugKeywords description),
      (GENERAL, 0),
      (OTHER, 0)]"

text \<open>\<open>categoryScores[k]\<close>: every key read by the reducer is a property of the object.\<close>

definition scoreOf :: "(TicketCategory \<times> nat) list \<Rightarrow> TicketCategory \<Rightarrow> nat" where
  "scoreOf scores k = (case map_of scores k of Some n \<Rightarrow> n | None \<Rightarrow> 0)"

text \<open>\<open>entries.reduce((a, b) => scores[a[0]] > scores[b[0]] ? a : b)\<close> with no initial
  value: the accumulator starts at the first entry. The array has seven entries, so the
  \<open>TypeError\<close> of an empty array cannot arise; the first equation is there for totality.\<close>

fun reduceTop ::
  "(TicketCategory \<times> nat) list \<Rightarrow> (TicketCategory \<times> nat) list \<Rightarrow> TicketCategory \<times> nat" where
  "reduceTop scores [] = (GENERAL, 0)"
| "reduceTop scores (e # es) =
     foldl (\<lambda>a b. if scoreOf scores (fst a) > scoreOf scores (fst b) then a else b) e es"

definition detectCategory :: "string \<Rightarrow> TicketCategory" where
  "detectCategory issueDescription =
     (let description = toLowerCase issueDescription;
          scores = categoryScores description;
          topCategory = reduceTop scores scores
      in if snd topCategory > 0 then fst topCategory else GENERAL)"

text \<open>The score \<open>detectCategory\<close> gives a category on a text, and the five categories
  that have a keyword list, in the order of the object literal.\<close>

definition keywordScore :: "string \<Rightarrow> TicketCategory \<Rightarrow> nat" where
  "keywordScore text c = scoreOf (categoryScores (toLowerCase text)) c"

definition scoredCategories :: "TicketCategory list" where
  "scoredCategories = [TECHNICAL, BILLING, ACCOUNT, FEATURE_REQUEST, BUG_REPORT]"

text \<open>The tie rule in the words of the specification: among the five scored categories
  the first one in declaration order that reaches the highest count, \<open>GENERAL\<close> when
  every count is zero.\<close>

definition detectCategory_spec :: "string \<Rightarrow> TicketCategory" where
  "detectCategory_spec text =
     (let scores = map (\<lambda>c. (c, keywordScore text c)) scoredCategories;
          top = fold max (map snd scores) 0
      in if top = 0 then GENERAL
         else (case find (\<lambda>e. snd e = top) scores of
                 Some e \<Rightarrow> fst e
               | None \<Rightarrow> GENERAL))"

text \<open>What \<open>s.replace(/\s+/g, ' ')\<close> leaves: every white-space code unit of the string
  is a space and none follows another one. The flag says whether a white-space code unit
  stands before the string.\<close>

fun singleSpaced :: "bool \<Rightarrow> string \<Rightarrow> bool" where
  "singleSpaced afterSpace [] = True"
| "singleSpaced afterSpace (c # cs) =
     (if isWhiteSpace c then c = CHR 0x20 \<and> \<not> afterSpace \<and> singleSpaced True cs
      else singleSpaced False cs)"

definition generateIssueTitle :: "string \<Rightarrow> string" where
  "generateIssueTitle description =
     (let cleaned = collapseWhitespace (trim description) in
      if length cleaned \<le> 60 then cleaned
      else let firstSentence = splitDotFirst cleaned in
        if length firstSentence \<le> 60 then firstSentence
        else trim (substring0 50 cleaned) @ ''...'')"


section \<open>Chat types (\<open>types/chat.ts\<close>)\<close>

datatype MessageRole = USER | ASSISTANT | SYSTEM

text \<open>Time stamps are milliseconds since the epoch. Field names that several object
  types share carry a suffix for the type.\<close>

record Message =
  id_m :: string
  role :: MessageRole
  content :: string
  timestamp :: nat
  metadata :: "(string \<times> string) list option"

datatype ConversationStep =
  GREETING | COLLECT_NAME | COLLECT_ISSUE | CLARIFY_DETAILS | SUGGEST_CATEGORY
  | CONFIRM_CATEGORY | FINAL_CONFIRMATION | TICKET_CREATED | ERROR

record CollectedData =
  userName :: "string option"
  userEmail :: "string option"
  issueDescription :: "string option"
  issueTitle :: "string option"
  suggestedCategory :: "string option"
  confirmedCategory :: "string option"
  additionalDetails :: "string list"

record ConversationState =
  id_c :: string
  currentStep :: ConversationStep
  collectedData :: CollectedData
  messages :: "Message list"
  isComplete :: bool
  createdTicketId :: "string option"
  startedAt :: nat
  completedAt :: "nat option"

datatype AIResponseType =
  T_question | T_clarification | T_category_suggestion | T_confirmation | T_success
  | T_error | T_typing

record AIResponse =
  type_r :: AIResponseType
  content_r :: string
  nextStep_r :: "ConversationStep option"
  suggestions_r :: "string list option"
  categoryOptions_r :: "string list option"
  requiresInput :: bool

subsection \<open>\<open>AI_PROMPTS\<close>\<close>

text \<open>The greeting and the ticket-created prompt each hold one pictograph outside
  Latin-1 (U+1F44B and U+2705); it is written as its UTF-8 bytes. No function inspects
  these two texts.\<close>

definition AI_PROMPTS_GREETING :: string where
  "AI_PROMPTS_GREETING =
     ''Hi there! '' @ [CHR 0xF0, CHR 0x9F, CHR 0x91, CHR 0x8B] @
     '' I'm here to help you create a support ticket. To get started, could you please tell me your name?''"

definition AI_PROMPTS_COLLECT_ISSUE :: "string \<Rightarrow> string" where
  "AI_PROMPTS_COLLECT_ISSUE name =
     ''Nice to meet you, '' @ name @
     ''! Now, could you please describe the issue you're experiencing? Be as detailed as possible - this will help our support team assist you better.''"

definition AI_PROMPTS_CLARIFY_DETAILS :: string where
  "AI_PROMPTS_CLARIFY_DETAILS =
     ''Thank you for that information. Could you provide any additional details that might help us understand the issue better? For example, when did this start happening, or what steps led to this issue?''"

definition AI_PROMPTS_SUGGEST_CATEGORY :: "string \<Rightarrow> string" where
  "AI_PROMPTS_SUGGEST_CATEGORY suggested =
     ''Based on your description, this seems like a **'' @ suggested @
     ''** issue. Does this sound right to you? You can confirm this category or let me know if you think it should be categorized differently.''"

definition AI_PROMPTS_FINAL_CONFIRMATION :: "string \<Rightarrow> string \<Rightarrow> string \<Rightarrow> string" where
  "AI_PROMPTS_FINAL_CONFIRMATION name title category =
     ''Perfect! Let me confirm the details for your support ticket:'' @ [CHR 0x0A, CHR 0x0A] @
     ''**Name:** '' @ name @ [CHR 0x0A] @
     ''**Issue:** '' @ title @ [CHR 0x0A] @
     ''**Category:** '' @ category @ [CHR 0x0A, CHR 0x0A] @
     ''Does everything look correct? If yes, I'll create your support ticket right away!''"

definition AI_PROMPTS_TICKET_CREATED :: "string \<Rightarrow> string" where
  "AI_PROMPTS_TICKET_CREATED ticketId =
     [CHR 0xE2, CHR 0x9C, CHR 0x85] @
     '' Great! Your support ticket has been created successfully.'' @ [CHR 0x0A, CHR 0x0A] @
     ''**Ticket ID:** '' @ ticketId @ [CHR 0x0A, CHR 0x0A] @
     ''Our support team will review your ticket and get back to you soon. You can reference this ticket ID in any future communications.'' @
     [CHR 0x0A, CHR 0x0A] @
     ''Is there anything else I can help you with today?''"

definition AI_PROMPTS_ERROR :: string where
  "AI_PROMPTS_ERROR =
     ''I apologize, but something went wrong. Let me try to help you in a different way. Could you please tell me what you were trying to do?''"

definition AI_PROMPTS_INVALID_INPUT :: string where
  "AI_PROMPTS_INVALID_INPUT =
     ''I didn't quite understand that. Could you please rephrase your response?''"

definition AI_PROMPTS_CATEGORY_OPTIONS :: "string list" where
  "AI_PROMPTS_CATEGORY_OPTIONS =
     [''Technical Issue'', ''Billing & Payments'', ''Account Management'',
      ''Feature Request'', ''Bug Report'', ''General Inquiry'', ''Other'']"

definition QUICK_REPLIES_YES :: "string list" where
  "QUICK_REPLIES_YES = [''Yes'', ''Correct'', ''That's right'']"

definition QUICK_REPLIES_NO :: "string list" where
  "QUICK_REPLIES_NO = [''No'', ''Not quite'', ''Different category'']"

definition QUICK_REPLIES_CONTINUE :: "string list" where
  "QUICK_REPLIES_CONTINUE = [''Continue'', ''Next'', ''Proceed'']"

definition QUICK_REPLIES_START_OVER :: "string list" where
  "QUICK_REPLIES_START_OVER = [''Start over'', ''Reset'', ''Begin again'']"

subsection \<open>Helpers of \<open>types/chat.ts\<close>\<close>

definition isConversationComplete :: "ConversationStep \<Rightarrow> bool" where
  "isConversationComplete step = (step = TICKET_CREATED)"

definition stepOrder :: "ConversationStep list" where
  "stepOrder =
     [GREETING, COLLECT_NAME, COLLECT_ISSUE, CLARIFY_DETAILS, SUGGEST_CATEGORY,
      CONFIRM_CATEGORY, FINAL_CONFIRMATION, TICKET_CREATED]"

text \<open>\<open>Math.round\<close>: the nearest integer, a half rounding up. The source computes
  \<open>(currentIndex / 7) * 100\<close> in double precision; the model computes the exact
  quotient. For the indices 0 to 7 the exact value lies at least 1/14 away from every
  half-integer and the double result within \<open>10\<^sup>-\<^sup>1\<^sup>2\<close> of it, so both round alike.\<close>

definition Math_round :: "rat \<Rightarrow> int" where
  "Math_round x = \<lfloor>x + 1 / 2\<rfloor>"

definition getProgressPercentage :: "ConversationStep \<Rightarrow> int" where
  "getProgressPercentage step =
     (if step = ERROR then 0
      else let currentIndex = indexOf stepOrder step in
        if currentIndex \<ge> 0
        then Math_round ((of_int currentIndex / of_int (int (length stepOrder) - 1)) * 100)
        else 0)"

section \<open>Conversation engine\<close>

text \<open>
  The engine calls \<open>uuidv4()\<close> and \<open>new Date()\<close>. Their results are inputs of the
  model: one record holds the values one call of \<open>processUserInput\<close> draws, in the order
  of the source.
\<close>

record Fresh =
  userMessageId :: string
  userMessageTime :: nat
  ticketId :: string
  aiMessageId :: string
  aiMessageTime :: nat
  completedTime :: nat

definition initializeConversation :: "string \<Rightarrow> string \<Rightarrow> nat \<Rightarrow> ConversationState" where
  "initializeConversation conversationId greetingId now =
     (let greetingMessage =
        \<lparr>id_m = greetingId, role = ASSISTANT, content = AI_PROMPTS_GREETING,
         timestamp = now, metadata = None\<rparr>
      in \<lparr>id_c = conversationId,
          currentStep = GREETING,
          collectedData =
            \<lparr>userName = None, userEmail = None, issueDescription = None, issueTitle = None,
             suggestedCategory = None, confirmedCategory = None, additionalDetails = []\<rparr>,
          messages = [greetingMessage],
          isComplete = False,
          createdTicketId = None,
          startedAt = now,
          completedAt = None\<rparr>)"

definition validateInput :: "string \<Rightarrow> ConversationStep \<Rightarrow> bool" where
  "validateInput input step =
     (let trimmedInput = trim input in
      case step of
        COLLECT_NAME \<Rightarrow> length trimmedInput \<ge> 2 \<and> length trimmedInput \<le> 50
      | COLLECT_ISSUE \<Rightarrow> length trimmedInput \<ge> 10
      | CLARIFY_DETAILS \<Rightarrow> length trimmedInput \<ge> 5
      | CONFIRM_CATEGORY \<Rightarrow> True
      | FINAL_CONFIRMATION \<Rightarrow> True
      | _ \<Rightarrow> True)"

text \<open>The local variables that the \<open>switch\<close> of \<open>processUserInput\<close> assigns.\<close>

record Vars =
  updatedCollectedData :: CollectedData
  nextStep :: ConversationStep
  aiResponseContent :: string
  aiResponseType :: AIResponseType
  suggestions :: "string list"
  categoryOptions :: "string list"

text \<open>\<open>case GREETING: case COLLECT_NAME:\<close>\<close>

definition caseCollectName :: "string \<Rightarrow> Vars \<Rightarrow> Vars" where
  "caseCollectName trimmedInput v =
     (if validateInput trimmedInput COLLECT_NAME
      then v\<lparr>updatedCollectedData := (updatedCollectedData v)\<lparr>userName := Some trimmedInput\<rparr>,
             nextStep := COLLECT_ISSUE,
             aiResponseContent := AI_PROMPTS_COLLECT_ISSUE trimmedInput\<rparr>
      else v\<lparr>aiResponseContent := ''Please provide a valid name (2-50 characters).''\<rparr>)"

text \<open>\<open>case COLLECT_ISSUE:\<close>\<close>

definition caseCollectIssue :: "string \<Rightarrow> Vars \<Rightarrow> Vars" where
  "caseCollectIssue trimmedInput v =
     (if validateInput trimmedInput COLLECT_ISSUE
      then v\<lparr>updatedCollectedData := (updatedCollectedData v)
               \<lparr>issueDescription := Some trimmedInput,
                issueTitle := Some (generateIssueTitle trimmedInput)\<rparr>,
             nextStep := CLARIFY_DETAILS,
             aiResponseContent := AI_PROMPTS_CLARIFY_DETAILS\<rparr>
      else v\<lparr>aiResponseContent :=
               ''Please provide more details about your issue (at least 10 characters).''\<rparr>)"

text \<open>\<open>case CLARIFY_DETAILS:\<close> the template literal prints an undefined description as
  \<open>undefined\<close>. The \<open>push\<close> acts on the array that the shallow copy shares with the
  conversation passed in; the model returns the new list in the new state.\<close>

definition caseClarifyDetails :: "string \<Rightarrow> Vars \<Rightarrow> Vars" where
  "caseClarifyDetails trimmedInput v =
     (if validateInput trimmedInput CLARIFY_DETAILS
      then
        let d = updatedCollectedData v;
            d1 = d\<lparr>additionalDetails := additionalDetails d @ [trimmedInput]\<rparr>;
            fullDescription =
              (case issueDescription d1 of None \<Rightarrow> ''undefined'' | Some x \<Rightarrow> x)
                @ '' '' @ trimmedInput;
            detectedCategory = detectCategory fullDescription
        in v\<lparr>updatedCollectedData := d1\<lparr>suggestedCategory := Some (categoryValue detectedCategory)\<rparr>,
             nextStep := SUGGEST_CATEGORY,
             aiResponseContent :=
               AI_PROMPTS_SUGGEST_CATEGORY (getCategoryDisplayName (categoryValue detectedCategory)),
             aiResponseType := T_category_suggestion,
             suggestions := QUICK_REPLIES_YES @ QUICK_REPLIES_NO\<rparr>
      else v\<lparr>aiResponseContent :=
               ''Please provide some additional details to help us better understand your issue.''\<rparr>)"

text \<open>\<open>case SUGGEST_CATEGORY: case CONFIRM_CATEGORY:\<close>\<close>

definition isPositiveResponse :: "string \<Rightarrow> bool" where
  "isPositiveResponse trimmedInput =
     (testAlternativesIgnoreCase
        [''yes'', ''y'', ''correct'', ''right'', ''ok'', ''okay'', ''sure'', ''yep'', ''yeah'']
        trimmedInput
      \<or> list_ex (\<lambda>reply. toLowerCase reply = toLowerCase trimmedInput) QUICK_REPLIES_YES)"

definition mentionedCategory :: "string \<Rightarrow> TicketCategory option" where
  "mentionedCategory trimmedInput =
     find (\<lambda>category.
             includes_str (toLowerCase trimmedInput) (categoryValue category) \<or>
             includes_str (toLowerCase trimmedInput)
               (toLowerCase (getCategoryDisplayName (categoryValue category))))
          ticketCategoryValues"

definition caseCategory :: "string \<Rightarrow> Vars \<Rightarrow> Vars" where
  "caseCategory trimmedInput v =
     (let d = updatedCollectedData v in
      if isPositiveResponse trimmedInput
      then v\<lparr>updatedCollectedData := d\<lparr>confirmedCategory := suggestedCategory d\<rparr>,
             nextStep := FINAL_CONFIRMATION,
             aiResponseContent :=
               AI_PROMPTS_FINAL_CONFIRMATION (orElse (userName d) ''User'')
                 (orElse (issueTitle d) ''Support Request'')
                 (getCategoryDisplayNameOpt (suggestedCategory d)),
             aiResponseType := T_confirmation,
             suggestions := QUICK_REPLIES_YES @ [''Make changes'']\<rparr>
      else
        let v1 = v\<lparr>nextStep := CONFIRM_CATEGORY,
                     aiResponseContent :=
                       ''No problem! Which category would better describe your issue?'',
                     aiResponseType := T_category_suggestion,
                     categoryOptions := AI_PROMPTS_CATEGORY_OPTIONS\<rparr>
        in case mentionedCategory trimmedInput of
             None \<Rightarrow> v1
           | Some mentioned \<Rightarrow>
               v1\<lparr>updatedCollectedData := d
                     \<lparr>suggestedCategory := Some (categoryValue mentioned),
                      confirmedCategory := Some (categoryValue mentioned)\<rparr>,
                   nextStep := FINAL_CONFIRMATION,
                   aiResponseContent :=
                     AI_PROMPTS_FINAL_CONFIRMATION (orElse (userName d) ''User'')
                       (orElse (issueTitle d) ''Support Request'')
                       (getCategoryDisplayName (categoryValue mentioned)),
                   aiResponseType := T_confirmation\<rparr>)"

text \<open>\<open>case FINAL_CONFIRMATION:\<close>\<close>

definition isConfirmed :: "string \<Rightarrow> bool" where
  "isConfirmed trimmedInput =
     (testAlternativesIgnoreCase
        [''yes'', ''y'', ''correct'', ''create'', ''submit'', ''ok'', ''okay'', ''sure'', ''yep'',
         ''yeah'']
        trimmedInput
      \<or> list_ex (\<lambda>reply. toLowerCase reply = toLowerCase trimmedInput) QUICK_REPLIES_YES)"

definition caseFinalConfirmation :: "string \<Rightarrow> string \<Rightarrow> Vars \<Rightarrow> Vars" where
  "caseFinalConfirmation trimmedInput newTicketId v =
     (let d = updatedCollectedData v in
      if isConfirmed trimmedInput
      then v\<lparr>nextStep := TICKET_CREATED,
             aiResponseContent := AI_PROMPTS_TICKET_CREATED newTicketId,
             aiResponseType := T_success,
             updatedCollectedData := d
               \<lparr>issueTitle := Some (orElse (issueTitle d) ''Support Request''),
                confirmedCategory :=
                  Some (orElse (confirmedCategory d) (categoryValue GENERAL))\<rparr>\<rparr>
      else v\<lparr>aiResponseContent :=
               ''What would you like to change? You can modify your name, issue description, or category.'',
             nextStep := COLLECT_NAME,
             suggestions :=
               [''Change name'', ''Change description'', ''Change category'', ''Start over'']\<rparr>)"

text \<open>\<open>default:\<close>\<close>

definition caseDefault :: "Vars \<Rightarrow> Vars" where
  "caseDefault v = v\<lparr>aiResponseContent := AI_PROMPTS_ERROR, aiResponseType := T_error\<rparr>"

definition processStep :: "string \<Rightarrow> string \<Rightarrow> ConversationStep \<Rightarrow> Vars \<Rightarrow> Vars" where
  "processStep trimmedInput newTicketId step v =
     (case step of
        GREETING \<Rightarrow> caseCollectName trimmedInput v
      | COLLECT_NAME \<Rightarrow> caseCollectName trimmedInput v
      | COLLECT_ISSUE \<Rightarrow> caseCollectIssue trimmedInput v
      | CLARIFY_DETAILS \<Rightarrow> caseClarifyDetails trimmedInput v
      | SUGGEST_CATEGORY \<Rightarrow> caseCategory trimmedInput v
      | CONFIRM_CATEGORY \<Rightarrow> caseCategory trimmedInput v
      | FINAL_CONFIRMATION \<Rightarrow> caseFinalConfirmation trimmedInput newTicketId v
      | _ \<Rightarrow> caseDefault v)"

record ProcessResult =
  updatedConversation :: ConversationState
  aiResponse :: AIResponse

text \<open>The source has no \<open>throw\<close> and calls nothing that raises on values of the declared
  types, so the model is a total function with no error result.\<close>

definition processUserInput :: "Fresh \<Rightarrow> string \<Rightarrow> ConversationState \<Rightarrow> ProcessResult" where
  "processUserInput fresh userInput currentConversation =
     (let trimmedInput = trim userInput;
          step = currentStep currentConversation;
          userMessage =
            \<lparr>id_m = userMessageId fresh, role = USER, content = trimmedInput,
             timestamp = userMessageTime fresh, metadata = None\<rparr>;
          updatedMessages = messages currentConversation @ [userMessage];
          v0 = \<lparr>updatedCollectedData = collectedData currentConversation,
                nextStep = step,
                aiResponseContent = [],
                aiResponseType = T_question,
                suggestions = [],
                categoryOptions = []\<rparr>;
          v = processStep trimmedInput (ticketId fresh) step v0;
          aiMessage =
            \<lparr>id_m = aiMessageId fresh, role = ASSISTANT, content = aiResponseContent v,
             timestamp = aiMessageTime fresh, metadata = None\<rparr>;
          response =
            \<lparr>type_r = aiResponseType v,
             content_r = aiResponseContent v,
             nextStep_r = Some (nextStep v),
             suggestions_r = (if length (suggestions v) > 0 then Some (suggestions v) else None),
             categoryOptions_r =
               (if length (categoryOptions v) > 0 then Some (categoryOptions v) else None),
             requiresInput = (nextStep v \<noteq> TICKET_CREATED)\<rparr>
      in \<lparr>updatedConversation =
            currentConversation
              \<lparr>currentStep := nextStep v,
               collectedData := updatedCollectedData v,
               messages := updatedMessages @ [aiMessage],
               isComplete := isConversationComplete (nextStep v),
               completedAt :=
                 (if isConversationComplete (nextStep v) then Some (completedTime fresh)
                  else None)\<rparr>,
          aiResponse = response\<rparr>)"

text \<open>The private \<open>getProgressPercentage\<close> of the engine, a second copy of the helper
  of \<open>types/chat.ts\<close> with its own \<open>stepOrder\<close> array.\<close>

definition getProgressPercentage_engine :: "ConversationStep \<Rightarrow> int" where
  "getProgressPercentage_engine step =
     (if step = ERROR then 0
      else let order =
             [GREETING, COLLECT_NAME, COLLECT_ISSUE, CLARIFY_DETAILS, SUGGEST_CATEGORY,
              CONFIRM_CATEGORY, FINAL_CONFIRMATION, TICKET_CREATED];
               currentIndex = indexOf order step
           in if currentIndex \<ge> 0
              then Math_round ((of_int currentIndex / of_int (int (length order) - 1)) * 100)
              else 0)"

subsection \<open>Runs of the engine\<close>

text \<open>A run feeds a list of inputs, each with the fresh values of its call, to
  \<open>processUserInput\<close>; \<open>conversationTrace\<close> lists the states it passes through, the
  starting state first.\<close>

fun conversationTrace :: "(Fresh \<times> string) list \<Rightarrow> ConversationState \<Rightarrow> ConversationState list" where
  "conversationTrace [] conv = [conv]"
| "conversationTrace ((fresh, userInput) # rest) conv =
     conv # conversationTrace rest (updatedConversation (processUserInput fresh userInput conv))"

text \<open>The rejection branch of \<open>FINAL_CONFIRMATION\<close>: the step is \<open>FINAL_CONFIRMATION\<close>
  and the trimmed input does not affirm.\<close>

definition rejectsFinalConfirmation :: "string \<Rightarrow> ConversationState \<Rightarrow> bool" where
  "rejectsFinalConfirmation userInput conv =
     (currentStep conv = FINAL_CONFIRMATION \<and> \<not> isConfirmed (trim userInput))"

fun neverRejects :: "(Fresh \<times> string) list \<Rightarrow> ConversationState \<Rightarrow> bool" where
  "neverRejects [] conv = True"
| "neverRejects ((fresh, userInput) # rest) conv =
     (\<not> rejectsFinalConfirmation userInput conv \<and>
      neverRejects rest (updatedConversation (processUserInput fresh userInput conv)))"

section \<open>API client\<close>

datatype ApiErrorType =
  VALIDATION_ERROR | NOT_FOUND | UNAUTHORIZED | FORBIDDEN | INTERNAL_ERROR | NETWORK_ERROR
  | TIMEOUT

text \<open>A thrown \<open>Error\<close> that is not an \<open>ApiClientError\<close>: a rejected \<open>fetch\<close> (a network
  failure or the abort of the timeout signal), a rejected \<open>response.json()\<close>, or a
  \<open>TypeError\<close> raised while a value is read.\<close>

record JsError =
  name_j :: string
  message_j :: string

text \<open>The wording of a \<open>TypeError\<close> message belongs to the engine; the texts below are
  those of V8. Nothing proved here depends on the wording.\<close>

definition TypeError :: "string \<Rightarrow> JsError" where
  "TypeError msg = \<lparr>name_j = ''TypeError'', message_j = msg\<rparr>"

subsection \<open>JSON values\<close>

text \<open>What \<open>response.json()\<close> resolves to: any JSON value. A number is given by the two
  things this program can observe of it: whether it is zero, and its string form. An
  object is the list of its properties (of a key written twice \<open>JSON.parse\<close> keeps the
  last value, which is then the only entry).\<close>

datatype Json =
  JNull | JBool bool | JNumber bool string | JString string | JArray "Json list"
  | JObject "(string \<times> Json) list"

text \<open>Truthiness, as \<open>||\<close> and \<open>if\<close> test it.\<close>

fun truthy :: "Json \<Rightarrow> bool" where
  "truthy JNull = False"
| "truthy (JBool b) = b"
| "truthy (JNumber zero shown) = (\<not> zero)"
| "truthy (JString s) = (s \<noteq> [])"
| "truthy (JArray xs) = True"
| "truthy (JObject ps) = True"

text \<open>\<open>value.name\<close> for the names this program reads (\<open>message\<close>, \<open>details\<close>,
  \<open>code\<close>), which no prototype defines: reading a property of \<open>null\<close> throws, an object
  answers its own property, every other value answers \<open>undefined\<close> (\<open>None\<close>).\<close>

fun getProperty :: "Json \<Rightarrow> string \<Rightarrow> JsError + Json option" where
  "getProperty JNull name =
     Inl (TypeError (''Cannot read properties of null (reading '' @ [CHR 0x27] @ name @
                      [CHR 0x27] @ '')''))"
| "getProperty (JObject ps) name = Inr (map_of ps name)"
| "getProperty v name = Inr None"

text \<open>\<open>xs.join(',')\<close> on strings.\<close>

fun joinComma :: "string list \<Rightarrow> string" where
  "joinComma [] = []"
| "joinComma [s] = s"
| "joinComma (s # t # ts) = s @ '','' @ joinComma (t # ts)"

text \<open>\<open>ToString\<close> of a JSON value, as the \<open>Error\<close> constructor applies it to its
  message; \<open>None\<close> is a thrown \<open>TypeError\<close>. An array joins the strings of its elements,
  \<open>null\<close> counting as the empty string. A plain object prints as \<open>[object Object]\<close>,
  unless it has an own property \<open>toString\<close>: that property is no function, the inherited
  \<open>valueOf\<close> answers the object itself, and the conversion throws.\<close>

fun toStringJson :: "Json \<Rightarrow> string option"
  and elementStrings :: "Json list \<Rightarrow> string list option" where
  "toStringJson JNull = Some ''null''"
| "toStringJson (JBool b) = Some (if b then ''true'' else ''false'')"
| "toStringJson (JNumber zero shown) = Some shown"
| "toStringJson (JString s) = Some s"
| "toStringJson (JArray xs) = map_option joinComma (elementStrings xs)"
| "toStringJson (JObject ps) =
     (if map_of ps ''toString'' \<noteq> None then None else Some ''[object Object]'')"
| "elementStrings [] = Some []"
| "elementStrings (x # xs) =
     (case (if x = JNull then Some [] else toStringJson x) of
        None \<Rightarrow> None
      | Some s \<Rightarrow> map_option ((#) s) (elementStrings xs))"

subsection \<open>Errors and responses\<close>

text \<open>An \<open>ApiError\<close> as \<open>createApiError\<close> builds it (its time stamp, a \<open>new Date()\<close>
  that nothing reads, is left out), and an \<open>ApiClientError\<close>: the message its \<open>Error\<close>
  part holds, the fields its constructor copies from an \<open>ApiError\<close> and the optional
  HTTP status.\<close>

record ApiError =
  type_a :: ApiErrorType
  message_a :: string
  details_a :: "Json option"
  code_a :: "Json option"

record ApiClientError =
  type_e :: ApiErrorType
  message_e :: string
  details_e :: "Json option"
  code_e :: "Json option"
  status_e :: "nat option"

datatype Thrown = ClientError ApiClientError | OtherError JsError

text \<open>The body of a response once parsed: the JSON value, and the same value read at
  the response type \<open>T\<close> (the cast \<open>responseData as T\<close>). The typed reading is what the
  callers use of a truthy body, which the model takes to have the shape of \<open>T\<close>.\<close>

record 'a Body =
  parsed :: Json
  shaped :: 'a

text \<open>A response: \<open>json\<close> is what the promise \<open>response.json()\<close> settles to, a rejection
  or the parsed body.\<close>

record 'a Response =
  status_h :: nat
  statusText :: string
  json :: "JsError + 'a Body"

datatype 'a FetchOutcome = Rejects JsError | Responds "'a Response"

definition API_CONFIG_retries :: nat where
  "API_CONFIG_retries = 1"

definition getErrorType :: "nat \<Rightarrow> ApiErrorType" where
  "getErrorType status =
     (if status = 400 then VALIDATION_ERROR
      else if status = 401 then UNAUTHORIZED
      else if status = 403 then FORBIDDEN
      else if status = 404 then NOT_FOUND
      else if status = 408 then TIMEOUT
      else if status \<ge> 500 then INTERNAL_ERROR
      else INTERNAL_ERROR)"

text \<open>\<open>response.ok\<close>\<close>

definition ok :: "'a Response \<Rightarrow> bool" where
  "ok response = (200 \<le> status_h response \<and> status_h response \<le> 299)"

text \<open>\<open>new ApiClientError(apiError, status)\<close> for an \<open>ApiError\<close> whose message is a
  string.\<close>

definition newApiClientError :: "ApiError \<Rightarrow> nat option \<Rightarrow> ApiClientError" where
  "newApiClientError apiError st =
     \<lparr>type_e = type_a apiError, message_e = message_a apiError,
      details_e = details_a apiError, code_e = code_a apiError, status_e = st\<rparr>"

text \<open>\<open>errorData.message || response.statusText || 'Request failed'\<close>, then turned into a
  string by the \<open>Error\<close> constructor: a truthy message of any type is kept and printed,
  which can throw.\<close>

definition messageString :: "Json option \<Rightarrow> string \<Rightarrow> string option" where
  "messageString m fallback =
     (case m of
        None \<Rightarrow> Some fallback
      | Some v \<Rightarrow> if truthy v then toStringJson v else Some fallback)"

text \<open>The statements of the \<open>if (!response.ok)\<close> block up to the \<open>throw\<close>: \<open>Inr\<close> is the
  \<open>ApiClientError\<close> built, \<open>Inl\<close> a \<open>TypeError\<close> raised on the way.
  \<open>response.json().catch(() => ({}))\<close> turns a rejected body into the empty object; a
  body that parses to \<open>null\<close> is kept, and reading its \<open>message\<close> throws.\<close>

definition responseError :: "'a Response \<Rightarrow> JsError + ApiClientError" where
  "responseError response =
     (let errorData = (case json response of Inl _ \<Rightarrow> JObject [] | Inr b \<Rightarrow> parsed b) in
      case getProperty errorData ''message'' of
        Inl typeError \<Rightarrow> Inl typeError
      | Inr m \<Rightarrow>
          (case messageString m (orElse (Some (statusText response)) ''Request failed'') of
             None \<Rightarrow> Inl (TypeError ''Cannot convert object to primitive value'')
           | Some msg \<Rightarrow>
               Inr \<lparr>type_e = getErrorType (status_h response),
                    message_e = msg,
                    details_e =
                      (case getProperty errorData ''details'' of Inl _ \<Rightarrow> None | Inr d \<Rightarrow> d),
                    code_e =
                      (case getProperty errorData ''code'' of Inl _ \<Rightarrow> None | Inr c \<Rightarrow> c),
                    status_e = Some (status_h response)\<rparr>))"

text \<open>The body of the \<open>try\<close> block for one response: \<open>Inl\<close> is the value thrown,
  \<open>Inr\<close> the value returned, which is the parsed body whatever it is.\<close>

definition handleResponse :: "'a Response \<Rightarrow> Thrown + 'a Body" where
  "handleResponse response =
     (if \<not> ok response then
        (case responseError response of
           Inl typeError \<Rightarrow> Inl (OtherError typeError)
         | Inr apiClientError \<Rightarrow> Inl (ClientError apiClientError))
      else case json response of
             Inl e \<Rightarrow> Inl (OtherError e)
           | Inr b \<Rightarrow> Inr b)"

definition tryAttempt :: "'a FetchOutcome \<Rightarrow> Thrown + 'a Body" where
  "tryAttempt fetched =
     (case fetched of
        Rejects e \<Rightarrow> Inl (OtherError e)
      | Responds response \<Rightarrow> handleResponse response)"

text \<open>\<open>error instanceof ApiClientError && error.status && error.status < 500\<close>:
  a status of 0 is falsy.\<close>

definition isClientErrorBelow500 :: "Thrown \<Rightarrow> bool" where
  "isClientErrorBelow500 error =
     (case error of
        ClientError e \<Rightarrow>
          (case status_e e of None \<Rightarrow> False | Some st \<Rightarrow> st \<noteq> 0 \<and> st < 500)
      | OtherError _ \<Rightarrow> False)"

text \<open>What one call of \<open>request\<close> does: the error thrown or the body returned, the number
  of calls of \<open>fetch\<close>, and the delays slept, in milliseconds and in order.\<close>

record 'a RequestRun =
  outcome :: "Thrown + 'a Body"
  attempts :: nat
  sleeps :: "nat list"

text \<open>The code after the loop, which always throws: an \<open>ApiClientError\<close> is thrown as
  it is, anything else is wrapped as a network error whose details are the object
  \<open>{ originalError: lastError?.name }\<close>.\<close>

definition networkError :: "JsError option \<Rightarrow> ApiClientError" where
  "networkError lastError =
     newApiClientError
       \<lparr>type_a = NETWORK_ERROR,
        message_a = orElse (map_option message_j lastError) ''Network request failed'',
        details_a = Some (JObject
          (case lastError of
             None \<Rightarrow> []
           | Some e \<Rightarrow> [(''originalError'', JString (name_j e))])),
        code_a = None\<rparr>
       None"

definition afterLoop :: "Thrown option \<Rightarrow> Thrown" where
  "afterLoop lastError =
     (case lastError of
        Some (ClientError e) \<Rightarrow> ClientError e
      | Some (OtherError e) \<Rightarrow> ClientError (networkError (Some e))
      | None \<Rightarrow> ClientError (networkError None))"


text \<open>The failures the retry policy is about: a network failure (a rejected \<open>fetch\<close>) or a
  response with a status of 500 or more.\<close>

definition networkFailureOr5xx :: "'a FetchOutcome \<Rightarrow> bool" where
  "networkFailureOr5xx fetched =
     (case fetched of Rejects _ \<Rightarrow> True | Responds response \<Rightarrow> status_h response \<ge> 500)"


text \<open>The retry loop \<open>for (let attempt = 0; attempt <= retries; attempt++)\<close>. The outcome
  of the \<open>fetch\<close> of each attempt is given by the environment; \<open>done\<close> counts the calls
  of \<open>fetch\<close> made so far.\<close>

function requestLoop ::
  "(nat \<Rightarrow> 'a FetchOutcome) \<Rightarrow> nat \<Rightarrow> nat \<Rightarrow> Thrown option \<Rightarrow> nat \<Rightarrow> nat list \<Rightarrow> 'a RequestRun" where
  "requestLoop fetch retries attempt lastError done slept =
     (if attempt \<le> retries then
        (case tryAttempt (fetch attempt) of
           Inr responseData \<Rightarrow>
             \<lparr>outcome = Inr responseData, attempts = done + 1, sleeps = slept\<rparr>
         | Inl error \<Rightarrow>
             if isClientErrorBelow500 error
             then \<lparr>outcome = Inl error, attempts = done + 1, sleeps = slept\<rparr>
             else if attempt = retries
             then \<lparr>outcome = Inl (afterLoop (Some error)), attempts = done + 1, sleeps = slept\<rparr>
             else requestLoop fetch retries (attempt + 1) (Some error) (done + 1)
                    (slept @ [1000 * (attempt + 1)]))
      else \<lparr>outcome = Inl (afterLoop lastError), attempts = done, sleeps = slept\<rparr>)"
  by pat_completeness auto
termination
  by (relation "measure (\<lambda>(fetch, retries, attempt, lastError, done, slept). Suc retries - attempt)")
    auto

declare requestLoop.simps [simp del]

text \<open>\<open>request\<close>: the URL, the method, the headers and the body only reach the network,
  whose answers are the environment \<open>fetch\<close>.\<close>

definition request :: "(nat \<Rightarrow> 'a FetchOutcome) \<Rightarrow> nat \<Rightarrow> 'a RequestRun" where
  "request fetch retries = requestLoop fetch retries 0 None 0 []"

section \<open>Ticket view-model (\<open>useTickets\<close>)\<close>

record Ticket =
  id_t :: string
  userName_t :: string
  userEmail_t :: "string option"
  title :: string
  description :: string
  category :: TicketCategory
  status :: TicketStatus
  priority :: TicketPriority
  createdAt :: nat
  updatedAt :: nat
  resolvedAt :: "nat option"
  assignedTo :: "string option"
  tags :: "string list"
  conversationId :: "string option"


record TicketFilter =
  status_f :: "TicketStatus list option"
  category_f :: "TicketCategory list option"
  priority_f :: "TicketPriority list option"
  assignedTo_f :: "string option"
  searchQuery_f :: "string option"
  dateFrom :: "nat option"
  dateTo :: "nat option"

record Pagination =
  page :: nat
  limit :: nat
  total :: "nat option"
  totalPages :: "nat option"
  hasNext :: "bool option"
  hasPrev :: "bool option"

datatype SortBy = By_createdAt | By_updatedAt | By_priority | By_status

datatype SortOrder = Asc | Desc

record GetTicketsRequest =
  filters_q :: "TicketFilter option"
  pagination_q :: "Pagination option"
  sortBy_q :: SortBy
  sortOrder_q :: SortOrder




definition DEFAULT_PAGE_SIZE :: nat where
  "DEFAULT_PAGE_SIZE = 20"

definition DEFAULT_PAGINATION :: Pagination where
  "DEFAULT_PAGINATION =
     \<lparr>page = 1, limit = DEFAULT_PAGE_SIZE, total = Some 0, totalPages = Some 0,
      hasNext = Some False, hasPrev = Some False\<rparr>"

definition DEFAULT_FILTERS :: TicketFilter where
  "DEFAULT_FILTERS =
     \<lparr>status_f = None, category_f = None, priority_f = None, assignedTo_f = None,
      searchQuery_f = None, dateFrom = None, dateTo = None\<rparr>"





text \<open>The state of the hook that \<open>loadTickets\<close>, \<open>updateTicket\<close> and \<open>filteredTickets\<close>
  read and write (the statistics are loaded apart and left out).\<close>

record TicketsState =
  tickets :: "Ticket list"
  isLoading :: bool
  error :: "string option"
  pagination :: Pagination
  filters :: TicketFilter
  searchQuery :: string
  sortBy :: SortBy
  sortOrder :: SortOrder

definition loadTicketsParams :: "bool \<Rightarrow> TicketsState \<Rightarrow> GetTicketsRequest" where
  "loadTicketsParams reset st =
     \<lparr>filters_q = Some ((filters st)
        \<lparr>searchQuery_f :=
           (if trim (searchQuery st) = [] then None else Some (trim (searchQuery st)))\<rparr>),
      pagination_q = Some
        \<lparr>page = (if reset then 1 else page (pagination st)), limit = DEFAULT_PAGE_SIZE,
         total = None, totalPages = None, hasNext = None, hasPrev = None\<rparr>,
      sortBy_q = sortBy st,
      sortOrder_q = sortOrder st\<rparr>"



text \<open>\<open>filteredTickets\<close>: the memoised view over \<open>tickets\<close>, \<open>filters\<close> and
  \<open>searchQuery\<close>.\<close>

definition filteredTickets :: "Ticket list \<Rightarrow> TicketFilter \<Rightarrow> string \<Rightarrow> Ticket list" where
  "filteredTickets ts fs query_text =
     (let filtered0 = ts;
          filtered1 =
            (case status_f fs of
               Some wanted \<Rightarrow>
                 if length wanted > 0
                 then filter (\<lambda>ticket. status ticket \<in> set wanted) filtered0
                 else filtered0
             | None \<Rightarrow> filtered0);
          filtered2 =
            (case category_f fs of
               Some wanted \<Rightarrow>
                 if length wanted > 0
                 then filter (\<lambda>ticket. category ticket \<in> set wanted) filtered1
                 else filtered1
             | None \<Rightarrow> filtered1);
          filtered3 =
            (case priority_f fs of
               Some wanted \<Rightarrow>
                 if length wanted > 0
                 then filter (\<lambda>ticket. priority ticket \<in> set wanted) filtered2
                 else filtered2
             | None \<Rightarrow> filtered2);
          filtered4 =
            (case assignedTo_f fs of
               Some wanted \<Rightarrow>
                 if wanted \<noteq> []
                 then filter (\<lambda>ticket. assignedTo ticket = Some wanted) filtered3
                 else filtered3
             | None \<Rightarrow> filtered3)
      in if trim query_text \<noteq> []
         then let q = toLowerCase query_text
              in filter (\<lambda>ticket.
                     includes_str (toLowerCase (title ticket)) q \<or>
                     includes_str (toLowerCase (description ticket)) q \<or>
                     includes_str (toLowerCase (userName_t ticket)) q \<or>
                     includes_str (toLowerCase (id_t ticket)) q) filtered4
         else filtered4)"

text \<open>The search constraint in the words of the specification: a case-insensitive
  substring match of the trimmed query.\<close>

definition matchesTrimmedQuery :: "string \<Rightarrow> Ticket \<Rightarrow> bool" where
  "matchesTrimmedQuery query_text ticket =
     (let q = toLowerCase (trim query_text)
      in includes_str (toLowerCase (title ticket)) q \<or>
         includes_str (toLowerCase (description ticket)) q \<or>
         includes_str (toLowerCase (userName_t ticket)) q \<or>
         includes_str (toLowerCase (id_t ticket)) q)"

subsection \<open>Example values\<close>

text \<open>A ticket, a state of the view-model that holds it, an update of its status, and
  a network that answers every attempt with the same status and the same JSON body.\<close>

definition exampleTicket :: Ticket where
  "exampleTicket =
     \<lparr>id_t = ''t-1001'', userName_t = ''Alice Johnson'', userEmail_t = None,
      title = ''Login bug'', description = ''The sign-in page rejects my password'',
      category = TECHNICAL, status = OPEN, priority = MEDIUM, createdAt = 0, updatedAt = 0,
      resolvedAt = None, assignedTo = None, tags = [], conversationId = None\<rparr>"

definition exampleState :: TicketsState where
  "exampleState =
     \<lparr>tickets = [exampleTicket], isLoading = False, error = None,
      pagination = DEFAULT_PAGINATION, filters = DEFAULT_FILTERS, searchQuery = ''bug '',
      sortBy = By_createdAt, sortOrder = Desc\<rparr>"


definition alwaysResponds :: "nat \<Rightarrow> string \<Rightarrow> Json \<Rightarrow> 'a \<Rightarrow> nat \<Rightarrow> 'a FetchOutcome" where
  "alwaysResponds st reason body typed attempt =
     Responds \<lparr>status_h = st, statusText = reason,
               json = Inr \<lparr>parsed = body, shaped = typed\<rparr>\<rparr>"

section \<open>Properties of category detection\<close>

lemma reduceTop_five:
  assumes S: "S = [(TECHNICAL, t), (BILLING, b), (ACCOUNT, a), (FEATURE_REQUEST, f),
      (BUG_REPORT, g), (GENERAL, 0), (OTHER, 0)]"
  shows "reduceTop S S =
    (let r1 = (if t > b then (TECHNICAL, t) else (BILLING, b));
         r2 = (if snd r1 > a then r1 else (ACCOUNT, a));
         r3 = (if snd r2 > f then r2 else (FEATURE_REQUEST, f));
         r4 = (if snd r3 > g then r3 else (BUG_REPORT, g));
         r5 = (if snd r4 > 0 then r4 else (GENERAL, 0))
     in if snd r5 > 0 then r5 else (OTHER, 0))"
  unfolding S by (simp add: scoreOf_def Let_def)

lemma scoreOf_five:
  assumes S: "S = [(TECHNICAL, t), (BILLING, b), (ACCOUNT, a), (FEATURE_REQUEST, f),
      (BUG_REPORT, g), (GENERAL, 0), (OTHER, 0)]"
  shows "scoreOf S TECHNICAL = t" "scoreOf S BILLING = b" "scoreOf S ACCOUNT = a"
    "scoreOf S FEATURE_REQUEST = f" "scoreOf S BUG_REPORT = g"
  unfolding S by (simp_all add: scoreOf_def)

lemma top_of_five:
  assumes S: "S = [(TECHNICAL, t), (BILLING, b), (ACCOUNT, a), (FEATURE_REQUEST, f),
      (BUG_REPORT, g), (GENERAL, 0), (OTHER, 0)]"
    and r: "r = (let top = reduceTop S S in if snd top > 0 then fst top else GENERAL)"
  shows "(\<forall>c \<in> set scoredCategories. scoreOf S c = 0) \<longrightarrow> r = GENERAL"
    and "\<not> (\<forall>c \<in> set scoredCategories. scoreOf S c = 0) \<longrightarrow>
        r \<in> set scoredCategories \<and>
        (\<forall>c \<in> set scoredCategories. scoreOf S c \<le> scoreOf S r) \<and>
        (\<forall>c \<in> set scoredCategories.
            indexOf ticketCategoryValues r < indexOf ticketCategoryValues c \<longrightarrow>
            scoreOf S c < scoreOf S r)"
  unfolding r reduceTop_five[OF S]
  using scoreOf_five[OF S]
  by (auto simp add: Let_def scoredCategories_def ticketCategoryValues_def indexOf_def
      split: if_splits)

text \<open>
  C4 (as stated, refuted). On the text \<open>login payment\<close> the technical and the billing
  list each match one keyword and the other three lists none, so two categories tie for
  the highest count. The first-declared of the two is \<open>TECHNICAL\<close>, which is what the
  specification's rule gives, but \<open>detectCategory\<close> returns \<open>BILLING\<close>.
\<close>

theorem detectCategory_tie_counterexample:
  "keywordScore ''login payment'' TECHNICAL = 1 \<and>
   keywordScore ''login payment'' BILLING = 1 \<and>
   keywordScore ''login payment'' ACCOUNT = 0 \<and>
   keywordScore ''login payment'' FEATURE_REQUEST = 0 \<and>
   keywordScore ''login payment'' BUG_REPORT = 0 \<and>
   detectCategory_spec ''login payment'' = TECHNICAL \<and>
   detectCategory ''login payment'' = BILLING"
  by code_simp

text \<open>
  C4 (amended). For every input text, \<open>detectCategory\<close> lower-cases the text and counts
  for each of the five keyword lists how many keywords occur as substrings. When every
  count is zero it returns \<open>GENERAL\<close>. Otherwise it returns one of the five scored
  categories whose count is the highest, and every category declared after the returned
  one has a strictly smaller count: among the categories that tie for the highest count
  the last-declared one is returned.
\<close>

theorem detectCategory_highest_last_declared:
  "((\<forall>c \<in> set scoredCategories. keywordScore text c = 0) \<longrightarrow>
      detectCategory text = GENERAL) \<and>
   (\<not> (\<forall>c \<in> set scoredCategories. keywordScore text c = 0) \<longrightarrow>
      detectCategory text \<in> set scoredCategories \<and>
      (\<forall>c \<in> set scoredCategories.
          keywordScore text c \<le> keywordScore text (detectCategory text)) \<and>
      (\<forall>c \<in> set scoredCategories.
          indexOf ticketCategoryValues (detectCategory text) < indexOf ticketCategoryValues c \<longrightarrow>
          keywordScore text c < keywordScore text (detectCategory text)))"
proof -
  define S where "S = categoryScores (toLowerCase text)"
  have S: "S = [(TECHNICAL, countMatches technicalKeywords (toLowerCase text)),
      (BILLING, countMatches billingKeywords (toLowerCase text)),
      (ACCOUNT, countMatches accountKeywords (toLowerCase text)),
      (FEATURE_REQUEST, countMatches featureKeywords (toLowerCase text)),
      (BUG_REPORT, countMatches bugKeywords (toLowerCase text)),
      (GENERAL, 0), (OTHER, 0)]"
    by (simp add: S_def categoryScores_def)
  have r: "detectCategory text =
      (let top = reduceTop S S in if snd top > 0 then fst top else GENERAL)"
    by (simp add: detectCategory_def S_def Let_def)
  have k: "keywordScore text = scoreOf S"
    by (rule ext) (simp add: keywordScore_def S_def)
  show ?thesis
    unfolding k using top_of_five[OF S r] by blast
qed

theorem detectCategory_highest_last_declared_witness:
  "keywordScore ''login payment'' BILLING \<noteq> 0 \<and>
   indexOf ticketCategoryValues (detectCategory ''login payment'')
     < indexOf ticketCategoryValues ACCOUNT \<and>
   keywordScore ''login payment'' ACCOUNT < keywordScore ''login payment'' BILLING \<and>
   detectCategory ''login payment'' = BILLING \<and>
   list_all (\<lambda>c. keywordScore ''hello there'' c = 0) scoredCategories \<and>
   detectCategory ''hello there'' = GENERAL"
proof -
  have b: "keywordScore ''login payment'' BILLING \<noteq> 0"
    by code_simp
  have bs: "BILLING \<in> set scoredCategories"
    by (simp add: scoredCategories_def)
  from b bs have nz: "\<not> (\<forall>c \<in> set scoredCategories. keywordScore ''login payment'' c = 0)"
    by auto
  have zl: "list_all (\<lambda>c. keywordScore ''hello there'' c = 0) scoredCategories"
    by code_simp
  then have z: "\<forall>c \<in> set scoredCategories. keywordScore ''hello there'' c = 0"
    by (simp add: list_all_iff)
  have d: "detectCategory ''login payment'' = BILLING"
    by code_simp
  have i: "indexOf ticketCategoryValues BILLING < indexOf ticketCategoryValues ACCOUNT"
    by code_simp
  have a: "ACCOUNT \<in> set scoredCategories"
    by (simp add: scoredCategories_def)
  from detectCategory_highest_last_declared [of "''login payment''"] nz d i a
  have "keywordScore ''login payment'' ACCOUNT < keywordScore ''login payment'' BILLING"
    by metis
  moreover from detectCategory_highest_last_declared [of "''hello there''"] z
  have "detectCategory ''hello there'' = GENERAL"
    by simp
  ultimately show ?thesis
    using b zl d i by simp
qed

section \<open>Properties of title derivation\<close>

text \<open>A derived title is at most 60 code units long and single-spaced, so deriving a
  title from it only trims it: the second derivation returns the first title without its
  leading and trailing white space.\<close>

lemma replaceRuns_singleSpaced: "singleSpaced p (replaceRuns p s)"
  by (induction s arbitrary: p) (auto simp add: isWhiteSpace_def)

lemma singleSpaced_replaceRuns: "singleSpaced p s \<Longrightarrow> replaceRuns p s = s"
  by (induction s arbitrary: p) (auto split: if_splits)

lemma singleSpaced_weaken: "singleSpaced p s \<Longrightarrow> singleSpaced False s"
  by (cases s) (auto split: if_splits)

lemma singleSpaced_prefix: "singleSpaced p (xs @ ys) \<Longrightarrow> singleSpaced p xs"
  by (induction xs arbitrary: p) (auto split: if_splits)

lemma singleSpaced_suffix: "singleSpaced p (xs @ ys) \<Longrightarrow> singleSpaced False ys"
proof (induction xs arbitrary: p)
  case Nil
  then show ?case by (simp add: singleSpaced_weaken)
next
  case (Cons x xs)
  then show ?case by (auto split: if_splits)
qed

lemma singleSpaced_append_plain:
  "singleSpaced p xs \<Longrightarrow> \<forall>c \<in> set ys. \<not> isWhiteSpace c \<Longrightarrow> singleSpaced p (xs @ ys)"
proof (induction xs arbitrary: p)
  case Nil
  then show ?case by (induction ys arbitrary: p) auto
next
  case (Cons x xs)
  then show ?case by (auto split: if_splits)
qed

lemma trim_sublist: "\<exists>a b. s = a @ trim s @ b"
proof -
  let ?u = "dropWhile isWhiteSpace s"
  have "s = takeWhile isWhiteSpace s @ ?u" by simp
  moreover have "rev ?u = takeWhile isWhiteSpace (rev ?u) @ dropWhile isWhiteSpace (rev ?u)"
    by simp
  then have "?u = trim s @ rev (takeWhile isWhiteSpace (rev ?u))"
    unfolding trim_def by (metis rev_append rev_rev_ident)
  ultimately show ?thesis by metis
qed

lemma singleSpaced_trim: "singleSpaced False s \<Longrightarrow> singleSpaced False (trim s)"
proof -
  assume a: "singleSpaced False s"
  obtain x y where "s = x @ trim s @ y" using trim_sublist by blast
  with a have "singleSpaced False (x @ trim s @ y)" by simp
  then have "singleSpaced False (trim s @ y)" by (rule singleSpaced_suffix)
  then show ?thesis by (rule singleSpaced_prefix)
qed

lemma length_trim_le: "length (trim s) \<le> length s"
proof -
  obtain x y where "s = x @ trim s @ y" using trim_sublist by blast
  then have "length s = length x + length (trim s) + length y"
    by (metis length_append add.assoc)
  then show ?thesis by simp
qed


lemma generateIssueTitle_short_singleSpaced:
  "singleSpaced False (generateIssueTitle s) \<and> length (generateIssueTitle s) \<le> 60"
proof -
  let ?cl = "collapseWhitespace (trim s)"
  have cl: "singleSpaced False ?cl"
    by (simp add: collapseWhitespace_def replaceRuns_singleSpaced)
  have "?cl = splitDotFirst ?cl @ dropWhile (\<lambda>c. c \<noteq> CHR ''.'') ?cl"
    by (simp add: splitDotFirst_def)
  with cl have fs: "singleSpaced False (splitDotFirst ?cl)"
    by (metis singleSpaced_prefix)
  have "?cl = substring0 50 ?cl @ drop 50 ?cl"
    by (simp add: substring0_def)
  with cl have "singleSpaced False (substring0 50 ?cl)"
    by (metis singleSpaced_prefix)
  then have "singleSpaced False (trim (substring0 50 ?cl))"
    by (rule singleSpaced_trim)
  then have tr: "singleSpaced False (trim (substring0 50 ?cl) @ ''...'')"
    by (rule singleSpaced_append_plain) (simp add: isWhiteSpace_def)
  have "length (trim (substring0 50 ?cl)) \<le> 50"
    using length_trim_le[of "substring0 50 ?cl"] by (simp add: substring0_def)
  then have len: "length (trim (substring0 50 ?cl) @ ''...'') \<le> 60"
    by simp
  show ?thesis
    unfolding generateIssueTitle_def Let_def using cl fs tr len by auto
qed

lemma generateIssueTitle_twice:
  "generateIssueTitle (generateIssueTitle s) = trim (generateIssueTitle s)"
proof -
  let ?t = "generateIssueTitle s"
  from generateIssueTitle_short_singleSpaced[of s]
  have sp: "singleSpaced False ?t" and len: "length ?t \<le> 60" by simp_all
  from sp have "singleSpaced False (trim ?t)" by (rule singleSpaced_trim)
  then have c: "collapseWhitespace (trim ?t) = trim ?t"
    by (simp add: collapseWhitespace_def singleSpaced_replaceRuns)
  from len length_trim_le[of ?t] have "length (trim ?t) \<le> 60" by simp
  with c show ?thesis
    by (simp add: generateIssueTitle_def[of ?t] Let_def)
qed

text \<open>
  C5 (the code at the failing input). The description below is longer than 60 code units
  after cleaning and its first sentence ends with a space before the full stop. The
  derived title is that sentence with the trailing space kept, and deriving a title from
  it again strips the space: \<open>generateIssueTitle\<close> is not idempotent there. The branch
  that truncates to 50 code units trims its result; the first-sentence branch does not.
  By \<open>generateIssueTitle_twice\<close> this untrimmed sentence is the only way idempotence fails.
\<close>

theorem generateIssueTitle_first_sentence_trailing_space:
  "generateIssueTitle
     ''Login fails . The page shows an error after I enter my password and press the button''
     = ''Login fails '' \<and>
   generateIssueTitle ''Login fails '' = ''Login fails'' \<and>
   generateIssueTitle (generateIssueTitle
     ''Login fails . The page shows an error after I enter my password and press the button'')
     \<noteq> generateIssueTitle
     ''Login fails . The page shows an error after I enter my password and press the button''"
  by code_simp

section \<open>Properties of the conversation engine\<close>

lemma dropWhile_snoc_keep:
  "\<not> P x \<Longrightarrow> \<exists>ys. dropWhile P (zs @ [x]) = ys @ [x]"
  by (induction zs) auto

lemma trim_no_lead: "dropWhile isWhiteSpace (trim s) = trim s"
proof (cases "dropWhile isWhiteSpace s")
  case Nil
  show ?thesis unfolding trim_def Nil by simp
next
  case (Cons x xs)
  then have nx: "\<not> isWhiteSpace x"
    by (metis hd_dropWhile list.distinct(1) list.sel(1))
  from dropWhile_snoc_keep[of isWhiteSpace x "rev xs", OF nx] obtain ys where
    "dropWhile isWhiteSpace (rev xs @ [x]) = ys @ [x]" by blast
  then show ?thesis unfolding trim_def Cons using nx by simp
qed

lemma trim_idem: "trim (trim s) = trim s"
proof -
  have "dropWhile isWhiteSpace (rev (trim s)) = rev (trim s)"
    by (simp add: trim_def)
  then show ?thesis
    using trim_no_lead[of s] by (simp add: trim_def[of "trim s"])
qed

lemmas engine_defs =
  processUserInput_def processStep_def caseCollectName_def caseCollectIssue_def
  caseClarifyDetails_def caseCategory_def caseFinalConfirmation_def caseDefault_def
  isConversationComplete_def Let_def

text \<open>
  C1. For every conversation state at \<open>GREETING\<close>, \<open>COLLECT_NAME\<close>, \<open>COLLECT_ISSUE\<close> or
  \<open>CLARIFY_DETAILS\<close> and every input whose trimmed text fails the length predicate of the
  step (name length outside 2 to 50, issue description shorter than 10, detail shorter
  than 5), \<open>processUserInput\<close> returns a state with the same step and the same collected
  data whose messages are the old ones followed by the echoed \<open>USER\<close> message and one
  \<open>ASSISTANT\<close> message carrying the reprompt of the step. The function is total: no input
  makes it throw.
\<close>

theorem processUserInput_invalid_reprompts:
  assumes "(currentStep conv \<in> {GREETING, COLLECT_NAME} \<and>
              \<not> (2 \<le> length (trim userInput) \<and> length (trim userInput) \<le> 50))
         \<or> (currentStep conv = COLLECT_ISSUE \<and> length (trim userInput) < 10)
         \<or> (currentStep conv = CLARIFY_DETAILS \<and> length (trim userInput) < 5)"
  shows "currentStep (updatedConversation (processUserInput fresh userInput conv)) = currentStep conv \<and>
     collectedData (updatedConversation (processUserInput fresh userInput conv)) = collectedData conv \<and>
     messages (updatedConversation (processUserInput fresh userInput conv)) =
       messages conv @
       [\<lparr>id_m = userMessageId fresh, role = USER, content = trim userInput,
         timestamp = userMessageTime fresh, metadata = None\<rparr>,
        \<lparr>id_m = aiMessageId fresh, role = ASSISTANT,
         content =
           (case currentStep conv of
              COLLECT_ISSUE \<Rightarrow>
                ''Please provide more details about your issue (at least 10 characters).''
            | CLARIFY_DETAILS \<Rightarrow>
                ''Please provide some additional details to help us better understand your issue.''
            | _ \<Rightarrow> ''Please provide a valid name (2-50 characters).''),
         timestamp = aiMessageTime fresh, metadata = None\<rparr>]"
  using assms
  by (cases "currentStep conv") (simp_all add: engine_defs validateInput_def trim_idem)

theorem processUserInput_invalid_reprompts_witness:
  "currentStep (initializeConversation ''c1'' ''g1'' 0) = GREETING \<and>
   length (trim '' A '') = 1 \<and>
   currentStep (updatedConversation (processUserInput
       \<lparr>userMessageId = ''u1'', userMessageTime = 1, ticketId = ''t1'',
        aiMessageId = ''a1'', aiMessageTime = 2, completedTime = 3\<rparr>
       '' A '' (initializeConversation ''c1'' ''g1'' 0))) = GREETING \<and>
   map role (messages (updatedConversation (processUserInput
       \<lparr>userMessageId = ''u1'', userMessageTime = 1, ticketId = ''t1'',
        aiMessageId = ''a1'', aiMessageTime = 2, completedTime = 3\<rparr>
       '' A '' (initializeConversation ''c1'' ''g1'' 0)))) = [ASSISTANT, USER, ASSISTANT]"
proof -
  have s: "currentStep (initializeConversation ''c1'' ''g1'' 0) = GREETING"
    by (simp add: initializeConversation_def)
  have l: "length (trim '' A '') = 1"
    by (simp add: trim_def isWhiteSpace_def)
  have h: "(currentStep (initializeConversation ''c1'' ''g1'' 0) \<in> {GREETING, COLLECT_NAME} \<and>
              \<not> (2 \<le> length (trim '' A '') \<and> length (trim '' A '') \<le> 50))
         \<or> (currentStep (initializeConversation ''c1'' ''g1'' 0) = COLLECT_ISSUE \<and>
              length (trim '' A '') < 10)
         \<or> (currentStep (initializeConversation ''c1'' ''g1'' 0) = CLARIFY_DETAILS \<and>
              length (trim '' A '') < 5)"
    using s l by simp
  have m: "map role (messages (initializeConversation ''c1'' ''g1'' 0)) = [ASSISTANT]"
    by (simp add: initializeConversation_def)
  from processUserInput_invalid_reprompts [OF h] s l m show ?thesis
    by simp
qed

text \<open>
  C2. \<open>initializeConversation\<close> returns a state at \<open>GREETING\<close> that is not complete, and
  for every conversation state and every input the state returned by \<open>processUserInput\<close>
  is complete if and only if its step is \<open>TICKET_CREATED\<close>.
\<close>

theorem isComplete_iff_ticket_created:
  "currentStep (initializeConversation cid gid t0) = GREETING \<and>
   isComplete (initializeConversation cid gid t0) = False \<and>
   isComplete (updatedConversation (processUserInput fresh userInput conv)) =
     (currentStep (updatedConversation (processUserInput fresh userInput conv)) = TICKET_CREATED)"
  by (simp add: initializeConversation_def processUserInput_def isConversationComplete_def Let_def)

text \<open>
  C10. On a state whose step is \<open>TICKET_CREATED\<close> or \<open>ERROR\<close> the default branch runs:
  the returned state has the same step and the same collected data, the echoed \<open>USER\<close>
  message and one \<open>ASSISTANT\<close> message with the fixed error prompt are appended, the
  response has type \<open>error\<close>, and the state is complete exactly when the step is
  \<open>TICKET_CREATED\<close>: input past completion is accepted.
\<close>

theorem processUserInput_default_branch:
  assumes "currentStep conv = TICKET_CREATED \<or> currentStep conv = ERROR"
  shows "currentStep (updatedConversation (processUserInput fresh userInput conv)) = currentStep conv \<and>
     collectedData (updatedConversation (processUserInput fresh userInput conv)) = collectedData conv \<and>
     messages (updatedConversation (processUserInput fresh userInput conv)) =
       messages conv @
       [\<lparr>id_m = userMessageId fresh, role = USER, content = trim userInput,
         timestamp = userMessageTime fresh, metadata = None\<rparr>,
        \<lparr>id_m = aiMessageId fresh, role = ASSISTANT, content = AI_PROMPTS_ERROR,
         timestamp = aiMessageTime fresh, metadata = None\<rparr>] \<and>
     type_r (aiResponse (processUserInput fresh userInput conv)) = T_error \<and>
     content_r (aiResponse (processUserInput fresh userInput conv)) = AI_PROMPTS_ERROR \<and>
     isComplete (updatedConversation (processUserInput fresh userInput conv)) =
       (currentStep conv = TICKET_CREATED)"
  using assms
  by (cases "currentStep conv") (simp_all add: engine_defs)

theorem processUserInput_default_branch_witness:
  "currentStep ((initializeConversation ''c1'' ''g1'' 0)\<lparr>currentStep := TICKET_CREATED\<rparr>)
     = TICKET_CREATED \<and>
   currentStep (updatedConversation (processUserInput
       \<lparr>userMessageId = ''u1'', userMessageTime = 1, ticketId = ''t1'',
        aiMessageId = ''a1'', aiMessageTime = 2, completedTime = 3\<rparr>
       ''thanks''
       ((initializeConversation ''c1'' ''g1'' 0)\<lparr>currentStep := TICKET_CREATED\<rparr>)))
     = TICKET_CREATED \<and>
   isComplete (updatedConversation (processUserInput
       \<lparr>userMessageId = ''u1'', userMessageTime = 1, ticketId = ''t1'',
        aiMessageId = ''a1'', aiMessageTime = 2, completedTime = 3\<rparr>
       ''thanks''
       ((initializeConversation ''c1'' ''g1'' 0)\<lparr>currentStep := TICKET_CREATED\<rparr>))) \<and>
   type_r (aiResponse (processUserInput
       \<lparr>userMessageId = ''u1'', userMessageTime = 1, ticketId = ''t1'',
        aiMessageId = ''a1'', aiMessageTime = 2, completedTime = 3\<rparr>
       ''thanks''
       ((initializeConversation ''c1'' ''g1'' 0)\<lparr>currentStep := TICKET_CREATED\<rparr>)))
     = T_error"
proof -
  have s: "currentStep ((initializeConversation ''c1'' ''g1'' 0)\<lparr>currentStep := TICKET_CREATED\<rparr>)
      = TICKET_CREATED"
    by simp
  then have h: "currentStep ((initializeConversation ''c1'' ''g1'' 0)\<lparr>currentStep := TICKET_CREATED\<rparr>)
        = TICKET_CREATED
      \<or> currentStep ((initializeConversation ''c1'' ''g1'' 0)\<lparr>currentStep := TICKET_CREATED\<rparr>)
        = ERROR"
    by simp
  from processUserInput_default_branch [OF h] s show ?thesis
    by simp
qed

subsection \<open>Progress\<close>

text \<open>
  C8. \<open>getProgressPercentage\<close>, in both copies, maps the eight steps of the ordered
  sequence to 0, 14, 29, 43, 57, 71, 86 and 100 and \<open>ERROR\<close> to 0. Each value is the
  integer nearest to the index of the step divided by 7, times 100: it differs from that
  quotient by at most one half.
\<close>

theorem getProgressPercentage_table:
  "map getProgressPercentage stepOrder = [0, 14, 29, 43, 57, 71, 86, 100] \<and>
   getProgressPercentage GREETING = 0 \<and>
   getProgressPercentage TICKET_CREATED = 100 \<and>
   getProgressPercentage ERROR = 0 \<and>
   map getProgressPercentage_engine stepOrder = map getProgressPercentage stepOrder \<and>
   getProgressPercentage_engine ERROR = 0 \<and>
   list_all
     (\<lambda>s. \<bar>of_int (getProgressPercentage s) - (of_int (indexOf stepOrder s) / 7 * 100 :: rat)\<bar>
            \<le> 1 / 2)
     stepOrder"
  by code_simp

subsection \<open>Steps never regress\<close>

lemma nextStep_cases:
  "currentStep (updatedConversation (processUserInput fresh userInput conv)) =
     (case currentStep conv of
        GREETING \<Rightarrow> if validateInput (trim userInput) COLLECT_NAME then COLLECT_ISSUE else GREETING
      | COLLECT_NAME \<Rightarrow> if validateInput (trim userInput) COLLECT_NAME then COLLECT_ISSUE else COLLECT_NAME
      | COLLECT_ISSUE \<Rightarrow> if validateInput (trim userInput) COLLECT_ISSUE then CLARIFY_DETAILS else COLLECT_ISSUE
      | CLARIFY_DETAILS \<Rightarrow> if validateInput (trim userInput) CLARIFY_DETAILS then SUGGEST_CATEGORY else CLARIFY_DETAILS
      | SUGGEST_CATEGORY \<Rightarrow>
          if isPositiveResponse (trim userInput) \<or> mentionedCategory (trim userInput) \<noteq> None
          then FINAL_CONFIRMATION else CONFIRM_CATEGORY
      | CONFIRM_CATEGORY \<Rightarrow>
          if isPositiveResponse (trim userInput) \<or> mentionedCategory (trim userInput) \<noteq> None
          then FINAL_CONFIRMATION else CONFIRM_CATEGORY
      | FINAL_CONFIRMATION \<Rightarrow> if isConfirmed (trim userInput) then TICKET_CREATED else COLLECT_NAME
      | TICKET_CREATED \<Rightarrow> TICKET_CREATED
      | ERROR \<Rightarrow> ERROR)"
  by (cases "currentStep conv") (auto simp add: engine_defs split: option.splits)

lemma stepIndex_values:
  "indexOf stepOrder GREETING = 0" "indexOf stepOrder COLLECT_NAME = 1"
  "indexOf stepOrder COLLECT_ISSUE = 2" "indexOf stepOrder CLARIFY_DETAILS = 3"
  "indexOf stepOrder SUGGEST_CATEGORY = 4" "indexOf stepOrder CONFIRM_CATEGORY = 5"
  "indexOf stepOrder FINAL_CONFIRMATION = 6" "indexOf stepOrder TICKET_CREATED = 7"
  "indexOf stepOrder ERROR = - 1"
  by (simp_all add: indexOf_def stepOrder_def)

lemma progress_values:
  "getProgressPercentage GREETING = 0" "getProgressPercentage COLLECT_NAME = 14"
  "getProgressPercentage COLLECT_ISSUE = 29" "getProgressPercentage CLARIFY_DETAILS = 43"
  "getProgressPercentage SUGGEST_CATEGORY = 57" "getProgressPercentage CONFIRM_CATEGORY = 71"
  "getProgressPercentage FINAL_CONFIRMATION = 86" "getProgressPercentage TICKET_CREATED = 100"
  "getProgressPercentage ERROR = 0"
  by code_simp+

lemma step_not_earlier:
  "\<not> rejectsFinalConfirmation userInput conv \<Longrightarrow>
   indexOf stepOrder (currentStep conv)
     \<le> indexOf stepOrder (currentStep (updatedConversation (processUserInput fresh userInput conv)))"
  unfolding nextStep_cases rejectsFinalConfirmation_def
  by (cases "currentStep conv") (simp_all add: stepIndex_values)

lemma step_rejected:
  "rejectsFinalConfirmation userInput conv \<Longrightarrow>
   currentStep (updatedConversation (processUserInput fresh userInput conv)) = COLLECT_NAME"
  unfolding nextStep_cases rejectsFinalConfirmation_def by simp

lemma progress_step:
  "\<not> rejectsFinalConfirmation userInput conv \<Longrightarrow>
   getProgressPercentage (currentStep conv)
     \<le> getProgressPercentage (currentStep (updatedConversation (processUserInput fresh userInput conv)))"
  unfolding nextStep_cases rejectsFinalConfirmation_def
  by (cases "currentStep conv") (simp_all add: progress_values)

lemma conversationTrace_hd: "\<exists>t. conversationTrace inputs conv = conv # t"
  by (cases inputs) auto

lemma progress_trace_sorted:
  "neverRejects inputs conv \<Longrightarrow>
   sorted (map (\<lambda>c. getProgressPercentage (currentStep c)) (conversationTrace inputs conv))"
proof (induction inputs arbitrary: conv)
  case Nil
  then show ?case by simp
next
  case (Cons a inputs)
  obtain fresh userInput where a: "a = (fresh, userInput)" by (cases a)
  let ?c = "updatedConversation (processUserInput fresh userInput conv)"
  from Cons.prems a have nr: "\<not> rejectsFinalConfirmation userInput conv"
    and rest: "neverRejects inputs ?c" by simp_all
  obtain t where t: "conversationTrace inputs ?c = ?c # t"
    using conversationTrace_hd by blast
  from Cons.IH[OF rest] progress_step[OF nr, of fresh] show ?case
    unfolding a by (fastforce simp add: t)
qed


text \<open>
  C9. For every conversation state and input, the step returned by \<open>processUserInput\<close> is
  not earlier in the step order than the current one, unless the call takes the rejection
  branch of \<open>FINAL_CONFIRMATION\<close> (the step is \<open>FINAL_CONFIRMATION\<close> and the input does not
  affirm), which sets the step to \<open>COLLECT_NAME\<close>. Hence along every run that never takes
  that branch the progress percentages of the states passed through never decrease.
\<close>

theorem steps_never_regress:
  "(\<not> rejectsFinalConfirmation userInput conv \<longrightarrow>
      indexOf stepOrder (currentStep conv)
        \<le> indexOf stepOrder
            (currentStep (updatedConversation (processUserInput fresh userInput conv)))) \<and>
   (rejectsFinalConfirmation userInput conv \<longrightarrow>
      currentStep (updatedConversation (processUserInput fresh userInput conv)) = COLLECT_NAME) \<and>
   (neverRejects inputs conv \<longrightarrow>
      sorted (map (\<lambda>c. getProgressPercentage (currentStep c)) (conversationTrace inputs conv)))"
  using step_not_earlier step_rejected progress_trace_sorted by blast

theorem steps_never_regress_witness:
  "\<not> rejectsFinalConfirmation ''Alice Johnson'' (initializeConversation ''c1'' ''g1'' 0) \<and>
   indexOf stepOrder (currentStep (initializeConversation ''c1'' ''g1'' 0))
     \<le> indexOf stepOrder (currentStep (updatedConversation (processUserInput
          \<lparr>userMessageId = ''u1'', userMessageTime = 1, ticketId = ''t1'',
           aiMessageId = ''a1'', aiMessageTime = 2, completedTime = 3\<rparr>
          ''Alice Johnson'' (initializeConversation ''c1'' ''g1'' 0)))) \<and>
   rejectsFinalConfirmation ''no''
     ((initializeConversation ''c1'' ''g1'' 0)\<lparr>currentStep := FINAL_CONFIRMATION\<rparr>) \<and>
   currentStep (updatedConversation (processUserInput
       \<lparr>userMessageId = ''u1'', userMessageTime = 1, ticketId = ''t1'',
        aiMessageId = ''a1'', aiMessageTime = 2, completedTime = 3\<rparr>
       ''no'' ((initializeConversation ''c1'' ''g1'' 0)\<lparr>currentStep := FINAL_CONFIRMATION\<rparr>)))
     = COLLECT_NAME \<and>
   neverRejects
     [(\<lparr>userMessageId = ''u1'', userMessageTime = 1, ticketId = ''t1'',
        aiMessageId = ''a1'', aiMessageTime = 2, completedTime = 3\<rparr>, ''Alice Johnson''),
      (\<lparr>userMessageId = ''u2'', userMessageTime = 4, ticketId = ''t2'',
        aiMessageId = ''a2'', aiMessageTime = 5, completedTime = 6\<rparr>,
       ''My invoice was double-charged this month''),
      (\<lparr>userMessageId = ''u3'', userMessageTime = 7, ticketId = ''t3'',
        aiMessageId = ''a3'', aiMessageTime = 8, completedTime = 9\<rparr>,
       ''It happened twice on the 1st and the 15th''),
      (\<lparr>userMessageId = ''u4'', userMessageTime = 10, ticketId = ''t4'',
        aiMessageId = ''a4'', aiMessageTime = 11, completedTime = 12\<rparr>, ''yes''),
      (\<lparr>userMessageId = ''u5'', userMessageTime = 13, ticketId = ''t5'',
        aiMessageId = ''a5'', aiMessageTime = 14, completedTime = 15\<rparr>, ''yes'')]
     (initializeConversation ''c1'' ''g1'' 0) \<and>
   sorted (map (\<lambda>c. getProgressPercentage (currentStep c)) (conversationTrace
     [(\<lparr>userMessageId = ''u1'', userMessageTime = 1, ticketId = ''t1'',
        aiMessageId = ''a1'', aiMessageTime = 2, completedTime = 3\<rparr>, ''Alice Johnson''),
      (\<lparr>userMessageId = ''u2'', userMessageTime = 4, ticketId = ''t2'',
        aiMessageId = ''a2'', aiMessageTime = 5, completedTime = 6\<rparr>,
       ''My invoice was double-charged this month''),
      (\<lparr>userMessageId = ''u3'', userMessageTime = 7, ticketId = ''t3'',
        aiMessageId = ''a3'', aiMessageTime = 8, completedTime = 9\<rparr>,
       ''It happened twice on the 1st and the 15th''),
      (\<lparr>userMessageId = ''u4'', userMessageTime = 10, ticketId = ''t4'',
        aiMessageId = ''a4'', aiMessageTime = 11, completedTime = 12\<rparr>, ''yes''),
      (\<lparr>userMessageId = ''u5'', userMessageTime = 13, ticketId = ''t5'',
        aiMessageId = ''a5'', aiMessageTime = 14, completedTime = 15\<rparr>, ''yes'')]
     (initializeConversation ''c1'' ''g1'' 0)))"
  (is "\<not> ?R1 \<and> ?I \<and> ?R2 \<and> ?S \<and> ?N \<and> ?P")
proof -
  have r1: "\<not> ?R1" by code_simp
  have r2: "?R2" by code_simp
  have n: "?N" by code_simp
  from steps_never_regress r1 have "?I" by blast
  moreover from steps_never_regress r2 have "?S" by blast
  moreover from steps_never_regress n have "?P" by blast
  ultimately show ?thesis using r1 r2 n by blast
qed

section \<open>Properties of the API client\<close>

text \<open>What the retry loop does with responses whose error can be built: a status from 400
  to 499 ends the request on the attempt that received it, and network failures and
  statuses of 500 or more are retried until the retries are used up, with a sleep of 1000
  ms times the number of the retry before each.\<close>

lemma responseError_status:
  "responseError r = Inr e \<Longrightarrow>
   status_e e = Some (status_h r) \<and> type_e e = getErrorType (status_h r)"
  by (auto simp add: responseError_def Let_def split: sum.splits option.splits)

lemma retried_failure_caught:
  "networkFailureOr5xx fetched \<Longrightarrow>
   \<exists>err. tryAttempt fetched = Inl err \<and> \<not> isClientErrorBelow500 err"
proof (cases fetched)
  case (Rejects e)
  then show ?thesis by (simp add: tryAttempt_def isClientErrorBelow500_def)
next
  case (Responds r)
  assume "networkFailureOr5xx fetched"
  with Responds have st: "status_h r \<ge> 500" by (simp add: networkFailureOr5xx_def)
  show ?thesis
  proof (cases "responseError r")
    case (Inl te)
    with st Responds show ?thesis
      by (simp add: tryAttempt_def handleResponse_def ok_def isClientErrorBelow500_def)
  next
    case (Inr e)
    with st Responds responseError_status[OF Inr] show ?thesis
      by (simp add: tryAttempt_def handleResponse_def ok_def isClientErrorBelow500_def)
  qed
qed

lemma client_error_thrown:
  "responseError r = Inr e \<Longrightarrow> status_h r < 500 \<Longrightarrow> 400 \<le> status_h r \<Longrightarrow>
   tryAttempt (Responds r) = Inl (ClientError e) \<and> isClientErrorBelow500 (ClientError e)"
  using responseError_status[of r e]
  by (simp add: tryAttempt_def handleResponse_def ok_def isClientErrorBelow500_def)

lemma requestLoop_retries:
  "a \<le> k \<Longrightarrow> k \<le> retries \<Longrightarrow> \<forall>j. a \<le> j \<and> j < k \<longrightarrow> networkFailureOr5xx (fetch j) \<Longrightarrow>
   \<exists>le1. requestLoop fetch retries a le0 d sl =
     requestLoop fetch retries k le1 (d + (k - a)) (sl @ map (\<lambda>n. 1000 * n) [a + 1 ..< k + 1])"
proof (induction "k - a" arbitrary: a le0 d sl)
  case 0
  then have "a = k" by simp
  then show ?case by auto
next
  case (Suc m)
  then have ak: "a < k" and ar: "a < retries" by simp_all
  with Suc.prems have f: "networkFailureOr5xx (fetch a)" by simp
  from retried_failure_caught[OF f] obtain err where
    err: "tryAttempt (fetch a) = Inl err" "\<not> isClientErrorBelow500 err" by blast
  with ar
  have step: "requestLoop fetch retries a le0 d sl =
      requestLoop fetch retries (a + 1) (Some err) (d + 1) (sl @ [1000 * (a + 1)])"
    by (subst requestLoop.simps) simp
  have m: "m = k - (a + 1)" using Suc.hyps(2) by simp
  have ak1: "a + 1 \<le> k" using ak by simp
  have rest: "\<forall>j. a + 1 \<le> j \<and> j < k \<longrightarrow> networkFailureOr5xx (fetch j)"
    using Suc.prems(3) by simp
  have e1: "d + 1 + (k - (a + 1)) = d + (k - a)" using ak by simp
  have e2: "(sl @ [1000 * (a + 1)]) @ map (\<lambda>n. 1000 * n) [a + 1 + 1 ..< k + 1]
      = sl @ map (\<lambda>n. 1000 * n) [a + 1 ..< k + 1]"
    using ak by (simp add: upt_conv_Cons)
  from Suc.hyps(1)[OF m ak1 Suc.prems(2) rest, of "Some err" "d + 1" "sl @ [1000 * (a + 1)]"]
  obtain le1 where
    "requestLoop fetch retries (a + 1) (Some err) (d + 1) (sl @ [1000 * (a + 1)]) =
     requestLoop fetch retries k le1 (d + 1 + (k - (a + 1)))
       ((sl @ [1000 * (a + 1)]) @ map (\<lambda>n. 1000 * n) [a + 1 + 1 ..< k + 1])"
    by blast
  then have "requestLoop fetch retries a le0 d sl =
     requestLoop fetch retries k le1 (d + (k - a)) (sl @ map (\<lambda>n. 1000 * n) [a + 1 ..< k + 1])"
    unfolding e1 e2 step .
  then show ?case by blast
qed

lemma request_client_error:
  assumes "k \<le> retries" and "\<forall>j<k. networkFailureOr5xx (fetch j)"
    and "fetch k = Responds r" and "400 \<le> status_h r" and "status_h r \<le> 499"
    and "responseError r = Inr e"
  shows "request fetch retries =
     \<lparr>outcome = Inl (ClientError e), attempts = k + 1,
      sleeps = map (\<lambda>n. 1000 * n) [1 ..< k + 1]\<rparr>"
proof -
  from assms(2) have "\<forall>j. 0 \<le> j \<and> j < k \<longrightarrow> networkFailureOr5xx (fetch j)" by simp
  from requestLoop_retries[OF _ assms(1) this, of None 0 "[]"]
  obtain le1 where
    "request fetch retries =
     requestLoop fetch retries k le1 k (map (\<lambda>n. 1000 * n) [1 ..< k + 1])"
    by (auto simp add: request_def)
  moreover from assms have "status_h r < 500" by simp
  from client_error_thrown[OF assms(6) this assms(4)] assms(1,3)
  have "requestLoop fetch retries k le1 k (map (\<lambda>n. 1000 * n) [1 ..< k + 1]) =
     \<lparr>outcome = Inl (ClientError e), attempts = k + 1,
      sleeps = map (\<lambda>n. 1000 * n) [1 ..< k + 1]\<rparr>"
    by (subst requestLoop.simps) simp
  ultimately show ?thesis by simp
qed



text \<open>
  C3 (the code at the failing input). Every attempt is answered with status 404 and the
  JSON body \<open>null\<close>, and the retry count is the default. Reading \<open>errorData.message\<close> of
  \<open>null\<close> throws a \<open>TypeError\<close> inside the \<open>try\<close> block before any \<open>ApiClientError\<close>
  exists; the \<open>catch\<close> block finds no \<open>ApiClientError\<close>, sleeps 1000 ms and fetches again,
  and after the second attempt the request throws a network error that carries the
  message of the \<open>TypeError\<close> and no status. So this 404 is retried and is not thrown as
  the classified \<open>NOT_FOUND\<close> error, against the comment of the \<open>catch\<close> block (no retry
  on client errors). With the body \<open>{}\<close> the same 404 ends the request on the first
  attempt.
\<close>

theorem request_retries_4xx_null_body:
  "request (alwaysResponds 404 ''Not Found'' JNull ()) API_CONFIG_retries =
     \<lparr>outcome = Inl (ClientError
        \<lparr>type_e = NETWORK_ERROR,
         message_e = ''Cannot read properties of null (reading 'message')'',
         details_e = Some (JObject [(''originalError'', JString ''TypeError'')]),
         code_e = None, status_e = None\<rparr>),
      attempts = 2, sleeps = [1000]\<rparr> \<and>
   request (alwaysResponds 404 ''Not Found'' (JObject []) ()) API_CONFIG_retries =
     \<lparr>outcome = Inl (ClientError
        \<lparr>type_e = NOT_FOUND, message_e = ''Not Found'', details_e = None,
         code_e = None, status_e = Some 404\<rparr>),
      attempts = 1, sleeps = []\<rparr>"
  by code_simp

section \<open>Properties of the ticket view-model\<close>






















lemma filteredTickets_eq_filter:
  "filteredTickets ts fs q =
     filter (\<lambda>ticket.
        (case status_f fs of Some wanted \<Rightarrow> wanted = [] \<or> status ticket \<in> set wanted | None \<Rightarrow> True) \<and>
        (case category_f fs of Some wanted \<Rightarrow> wanted = [] \<or> category ticket \<in> set wanted | None \<Rightarrow> True) \<and>
        (case priority_f fs of Some wanted \<Rightarrow> wanted = [] \<or> priority ticket \<in> set wanted | None \<Rightarrow> True) \<and>
        (case assignedTo_f fs of Some wanted \<Rightarrow> wanted = [] \<or> assignedTo ticket = Some wanted | None \<Rightarrow> True) \<and>
        (trim q = [] \<or>
           includes_str (toLowerCase (title ticket)) (toLowerCase q) \<or>
           includes_str (toLowerCase (description ticket)) (toLowerCase q) \<or>
           includes_str (toLowerCase (userName_t ticket)) (toLowerCase q) \<or>
           includes_str (toLowerCase (id_t ticket)) (toLowerCase q))) ts"
  by (auto simp add: filteredTickets_def Let_def split: option.splits
      intro!: filter_cong)


text \<open>
  C7 (the code at the failing input). The view holds one ticket titled \<open>Login bug\<close> and
  the search query is \<open>bug\<close> followed by a space, with no other filter. The trimmed query
  occurs in the title, so the ticket satisfies every constraint of the specification, and
  the request \<open>loadTickets\<close> sends to the server carries the trimmed query. Yet
  \<open>filteredTickets\<close> drops the ticket: it tests the trimmed query for blankness and then
  matches the query untrimmed.
\<close>

theorem filteredTickets_untrimmed_query:
  "matchesTrimmedQuery (searchQuery exampleState) exampleTicket \<and>
   filteredTickets (tickets exampleState) (filters exampleState) (searchQuery exampleState) = [] \<and>
   tickets exampleState = [exampleTicket] \<and>
   searchQuery exampleState = ''bug '' \<and>
   map_option searchQuery_f (filters_q (loadTicketsParams True exampleState))
     = Some (Some ''bug'')"
  by code_simp

end
